theory Spec2Isabelle
  imports Main "HOL-Library.Word"
begin

unbundle bit_operations_syntax

section \<open>ThreadSafeQueue (thread_safe_queue.h)\<close>

text \<open>
  The queue object: the \<open>std::queue\<close> (front of the queue is the head of the list), the
  capacity \<open>max_size_\<close> (0 means unbounded) and the \<open>terminated_\<close> flag. Every method
  body runs under the queue's mutex, so a method is a function on this state; the only
  places where other threads can act in the middle of a method are the condition-variable
  waits, modelled below.
\<close>

record 'a tsq =
  queue :: "'a list"
  max_size :: nat
  terminated :: bool

text \<open>The constructor \<open>ThreadSafeQueue(size_t max_size = 0)\<close>.\<close>

definition ThreadSafeQueue :: "nat \<Rightarrow> 'a tsq" where
  "ThreadSafeQueue m = \<lparr>queue = [], max_size = m, terminated = False\<rparr>"

text \<open>
  \<open>cv.wait_for(lock, timeout, pred)\<close> is \<open>while (!pred()) if (wait_until(..) == timeout)
  return pred(); return true\<close>. While the caller is blocked the lock is released and the
  other threads change the queue; the list \<open>env\<close> gives what they do during each
  successive blocking period before the timeout expires, and the empty list is the expiry
  of the timeout. The result is the value of the predicate, the state seen on return,
  and the number of times the caller blocked.
\<close>

fun wait_for :: "('s \<Rightarrow> bool) \<Rightarrow> 's \<Rightarrow> ('s \<Rightarrow> 's) list \<Rightarrow> bool \<times> 's \<times> nat" where
  "wait_for pred s [] = (if pred s then (True, s, 0) else (False, s, 1))"
| "wait_for pred s (e # env) =
     (if pred s then (True, s, 0)
      else (case wait_for pred (e s) env of (r, s', k) \<Rightarrow> (r, s', Suc k)))"

text \<open>
  \<open>cv.wait(lock, pred)\<close> is \<open>while (!pred()) wait(lock)\<close>: with no timeout, a caller
  whose predicate never becomes true stays blocked and the method does not return
  (\<open>None\<close>).
\<close>

fun wait_cv :: "('s \<Rightarrow> bool) \<Rightarrow> 's \<Rightarrow> ('s \<Rightarrow> 's) list \<Rightarrow> ('s \<times> nat) option" where
  "wait_cv pred s [] = (if pred s then Some (s, 0) else None)"
| "wait_cv pred s (e # env) =
     (if pred s then Some (s, 0)
      else (case wait_cv pred (e s) env of None \<Rightarrow> None | Some (s', k) \<Rightarrow> Some (s', Suc k)))"

text \<open>What a queue method hands back: its \<open>bool\<close>, the queue, and how often it blocked.\<close>

record 'a push_result =
  pushed :: bool
  after_push :: "'a tsq"
  push_blocked :: nat

record 'a pop_result =
  popped :: bool
  item_out :: "'a option"
  after_pop :: "'a tsq"
  pop_blocked :: nat

text \<open>
  \<open>bool push(const T& item, int timeout_ms = -1)\<close>; the overload taking \<open>T&&\<close> has the
  same body. The first stage is the wait of a bounded queue: \<open>Inl\<close> is the early
  \<open>return false\<close> on timeout.
\<close>

definition not_full_pred :: "'a tsq \<Rightarrow> bool" where
  "not_full_pred q = (length (queue q) < max_size q \<or> terminated q)"

definition push :: "'a \<Rightarrow> int \<Rightarrow> 'a tsq \<Rightarrow> ('a tsq \<Rightarrow> 'a tsq) list \<Rightarrow> 'a push_result option" where
  "push item timeout_ms q env =
     (let waited =
        (if max_size q > 0 then
           (if timeout_ms \<ge> 0 then
              (case wait_for not_full_pred q env of
                 (False, q', k) \<Rightarrow> Some (Inl (q', k))
               | (True, q', k) \<Rightarrow> Some (Inr (q', k)))
            else
              (case wait_cv not_full_pred q env of
                 None \<Rightarrow> None
               | Some (q', k) \<Rightarrow> Some (Inr (q', k))))
         else Some (Inr (q, 0)))
      in case waited of
           None \<Rightarrow> None
         | Some (Inl (q', k)) \<Rightarrow> Some \<lparr>pushed = False, after_push = q', push_blocked = k\<rparr>
         | Some (Inr (q', k)) \<Rightarrow>
             if terminated q' then Some \<lparr>pushed = False, after_push = q', push_blocked = k\<rparr>
             else Some \<lparr>pushed = True, after_push = q'\<lparr>queue := queue q' @ [item]\<rparr>,
                        push_blocked = k\<rparr>)"

text \<open>
  \<open>bool pop(T& item, int timeout_ms = -1)\<close>. The out-parameter is written only on
  success (\<open>item_out = Some x\<close>). \<open>queue_.front()\<close> on an empty queue has no
  defined result (\<open>None\<close>); the wait before it leaves the queue non-empty or
  terminated, so that case is never reached (\<open>pop_returns\<close> below).
\<close>

definition not_empty_pred :: "'a tsq \<Rightarrow> bool" where
  "not_empty_pred q = (queue q \<noteq> [] \<or> terminated q)"

definition pop :: "int \<Rightarrow> 'a tsq \<Rightarrow> ('a tsq \<Rightarrow> 'a tsq) list \<Rightarrow> 'a pop_result option" where
  "pop timeout_ms q env =
     (let waited =
        (if timeout_ms \<ge> 0 then
           (case wait_for not_empty_pred q env of
              (False, q', k) \<Rightarrow> Some (Inl (q', k))
            | (True, q', k) \<Rightarrow> Some (Inr (q', k)))
         else
           (case wait_cv not_empty_pred q env of
              None \<Rightarrow> None
            | Some (q', k) \<Rightarrow> Some (Inr (q', k))))
      in case waited of
           None \<Rightarrow> None
         | Some (Inl (q', k)) \<Rightarrow>
             Some \<lparr>popped = False, item_out = None, after_pop = q', pop_blocked = k\<rparr>
         | Some (Inr (q', k)) \<Rightarrow>
             if terminated q' \<and> queue q' = [] then
               Some \<lparr>popped = False, item_out = None, after_pop = q', pop_blocked = k\<rparr>
             else
               (case queue q' of
                  [] \<Rightarrow> None
                | x # rest \<Rightarrow>
                    Some \<lparr>popped = True, item_out = Some x, after_pop = q'\<lparr>queue := rest\<rparr>,
                          pop_blocked = k\<rparr>))"

text \<open>\<open>void terminate()\<close>: sets the flag under the lock, then notifies all waiters.\<close>

definition terminate :: "'a tsq \<Rightarrow> 'a tsq" where
  "terminate q = q\<lparr>terminated := True\<rparr>"

text \<open>
  A consumer that calls \<open>pop\<close> again and again (the loop of the encoder thread, here
  for \<open>n\<close> rounds): the items it received in order, and the queue it leaves. It stops at
  the first \<open>pop\<close> that fails or does not return.
\<close>

fun pop_many :: "nat \<Rightarrow> int \<Rightarrow> 'a tsq \<Rightarrow> 'a list \<times> 'a tsq" where
  "pop_many 0 timeout_ms q = ([], q)"
| "pop_many (Suc n) timeout_ms q =
     (case pop timeout_ms q [] of
        None \<Rightarrow> ([], q)
      | Some r \<Rightarrow>
          (case item_out r of
             None \<Rightarrow> ([], after_pop r)
           | Some x \<Rightarrow> (case pop_many n timeout_ms (after_pop r) of (xs, q') \<Rightarrow> (x # xs, q'))))"

text \<open>A producer pushing a list of items one after the other, stopping at the first failure.\<close>

fun push_many :: "'a list \<Rightarrow> int \<Rightarrow> 'a tsq \<Rightarrow> 'a tsq" where
  "push_many [] timeout_ms q = q"
| "push_many (x # xs) timeout_ms q =
     (case push x timeout_ms q [] of
        None \<Rightarrow> q
      | Some r \<Rightarrow> if pushed r then push_many xs timeout_ms (after_push r) else after_push r)"

section \<open>CameraCapture (CameraCapture.h, CameraCapture.cpp)\<close>

subsection \<open>The device boundary\<close>

type_synonym u32 = "32 word"

text \<open>
  The \<open>ioctl\<close> requests the class issues, each with the fields of its argument struct
  that the code sets (buffer type and memory kind are the same constants everywhere):
  \<open>S_FMT\<close> width, height, pixelformat; \<open>S_PARM\<close> numerator, denominator;
  \<open>REQBUFS\<close> count; \<open>QUERYBUF\<close>, \<open>QBUF\<close>, \<open>EXPBUF\<close> index.
\<close>

datatype request =
    VIDIOC_QUERYCAP
  | VIDIOC_S_FMT u32 u32 u32
  | VIDIOC_S_PARM u32 u32
  | VIDIOC_REQBUFS u32
  | VIDIOC_QUERYBUF u32
  | VIDIOC_QBUF u32
  | VIDIOC_DQBUF
  | VIDIOC_EXPBUF u32
  | VIDIOC_STREAMON
  | VIDIOC_STREAMOFF

text \<open>
  Everything the class does to the outside world, newest event first: system calls
  (\<open>Mmap\<close> length, fd, offset; \<open>Munmap\<close> address, length), lines written by
  \<open>report_error\<close>, and the sleep of the capture loop in milliseconds.
\<close>

datatype event =
    Open string
  | Ioctl int request
  | Mmap nat int u32
  | Munmap "64 word" nat
  | Close int
  | Select int
  | Report string
  | Sleep_ms nat

text \<open>An \<open>ioctl\<close> answers \<open>-1\<close> with an \<open>errno\<close>, or \<open>0\<close> with the struct filled in.\<close>

datatype 'a reply = Fail int | Ok 'a

definition EINTR :: int where "EINTR = 4"
definition EAGAIN :: int where "EAGAIN = 11"
definition EINVAL :: int where "EINVAL = 22"

text \<open>Constants of \<open>linux/videodev2.h\<close> and \<open>sys/mman.h\<close>.\<close>

definition V4L2_CAP_VIDEO_CAPTURE :: u32 where "V4L2_CAP_VIDEO_CAPTURE = 0x00000001"
definition V4L2_CAP_STREAMING :: u32 where "V4L2_CAP_STREAMING = 0x04000000"
definition V4L2_PIX_FMT_YUYV :: u32 where "V4L2_PIX_FMT_YUYV = 0x56595559"
definition MAP_FAILED :: "64 word" where "MAP_FAILED = - 1"
definition nullptr :: "64 word" where "nullptr = 0"

text \<open>What \<open>VIDIOC_DQBUF\<close> fills in: index, bytesused, timestamp, sequence.\<close>

record dequeued =
  dq_index :: u32
  dq_bytesused :: u32
  dq_timestamp :: "int \<times> int"
  dq_sequence :: u32

text \<open>
  The kernel and the driver are not part of the program: they are a parameter. Each
  system call is answered as a function of the whole history of events up to and
  including the call itself (the head of the list), so a driver may answer the same
  request differently each time. \<open>sys_open\<close> gives the descriptor or \<open>-1\<close>,
  \<open>sys_mmap\<close> the address or \<open>MAP_FAILED\<close>, \<open>sys_select\<close> the return value and
  \<open>errno\<close>; \<open>s_fmt\<close> gives width, height, pixelformat and bytesperline as the
  driver set them, \<open>reqbufs\<close> the granted count, \<open>querybuf\<close> length and offset,
  \<open>expbuf\<close> the exported descriptor.
\<close>

record driver =
  sys_open :: "event list \<Rightarrow> int"
  sys_mmap :: "event list \<Rightarrow> 64 word"
  sys_select :: "event list \<Rightarrow> int \<times> int"
  querycap :: "event list \<Rightarrow> u32 reply"
  s_fmt :: "event list \<Rightarrow> (u32 \<times> u32 \<times> u32 \<times> u32) reply"
  s_parm :: "event list \<Rightarrow> unit reply"
  reqbufs :: "event list \<Rightarrow> u32 reply"
  querybuf :: "event list \<Rightarrow> (u32 \<times> u32) reply"
  expbuf :: "event list \<Rightarrow> int reply"
  qbuf :: "event list \<Rightarrow> unit reply"
  dqbuf :: "event list \<Rightarrow> dequeued reply"
  streamon :: "event list \<Rightarrow> unit reply"
  streamoff :: "event list \<Rightarrow> unit reply"

text \<open>
  The macro \<open>IOCTL_RETRY\<close>: \<open>do _ret = ioctl(..) while (_ret == -1 && (errno == EINTR
  || errno == EAGAIN))\<close>. Against a driver that answers one of the two forever the loop
  never ends: the result is \<open>None\<close>.
\<close>

partial_function (option) ioctl_retry ::
  "(event list \<Rightarrow> 'a reply) \<Rightarrow> event \<Rightarrow> event list \<Rightarrow> ('a reply \<times> event list) option" where
  "ioctl_retry answer call log =
     (let log' = call # log in
      case answer log' of
        Fail errno \<Rightarrow>
          if errno = EINTR \<or> errno = EAGAIN then ioctl_retry answer call log'
          else Some (Fail errno, log')
      | Ok v \<Rightarrow> Some (Ok v, log'))"

declare ioctl_retry.simps [code]

subsection \<open>The class state\<close>

text \<open>
  The members \<open>fd_\<close>, \<open>buffers_\<close>, ... of the class are written \<open>fd'\<close>,
  \<open>buffers'\<close>, ... (a name cannot end in an underscore); \<open>Buffer::length\<close> is
  \<open>length'\<close>.
\<close>

record buffer =
  start :: "64 word"
  length' :: nat
  dma_fd :: int

record camera =
  device_path' :: string
  width' :: u32
  height' :: u32
  stride' :: u32
  fps' :: u32
  pixel_format' :: u32
  camera_id' :: int
  fd' :: int
  running' :: bool
  initialized' :: bool
  buffers' :: "buffer list"

text \<open>
  \<open>struct CameraFrame\<close>. The closure \<open>return_buffer\<close> captures \<open>this\<close> and the
  dequeued index; the record keeps the captured index, and \<open>invoke_return_buffer\<close>
  below is the call of the closure.
\<close>

record frame =
  camera_id :: int
  buf_index :: int
  fd :: int
  data :: "64 word"
  length_f :: nat
  bytes_used :: nat
  width :: u32
  height :: u32
  stride :: u32
  pixel_format :: u32
  timestamp :: "int \<times> int"
  sequence :: u32
  return_buffer :: u32

text \<open>
  Every \<open>return false\<close> of the class is a value of \<open>error\<close>, one per place in the
  code; \<open>Inr\<close> is \<open>return true\<close>. A method returns its result, the object and the
  event log, or \<open>None\<close> when it does not return.
\<close>

datatype error =
    DeviceOpenError
  | QuerycapFailed
  | NoVideoCapture
  | NoStreaming
  | SetFormatFailed
  | FormatNotSupported
  | SetFrameRateFailed
  | ReqbufsFailed
  | InsufficientBuffers
  | QuerybufFailed
  | MmapFailed
  | QbufFailed
  | StreamonFailed
  | StreamoffFailed
  | Interrupted
  | SelectFailed
  | CaptureTimeout
  | NoData
  | DqbufFailed
  | InvalidBufferIndex

type_synonym 'a outcome = "((error + 'a) \<times> camera \<times> event list) option"

text \<open>
  The constructor. \<open>stride_\<close> has no initialiser in the class; it is written by
  \<open>initialize\<close> before anything reads it, and stands as 0 here.
\<close>

definition CameraCapture :: "string \<Rightarrow> u32 \<Rightarrow> u32 \<Rightarrow> u32 \<Rightarrow> u32 \<Rightarrow> camera" where
  "CameraCapture path w h rate pf =
     \<lparr>device_path' = path, width' = w, height' = h, stride' = 0, fps' = rate,
      pixel_format' = pf, camera_id' = 0, fd' = - 1, running' = False,
      initialized' = False, buffers' = []\<rparr>"

text \<open>\<open>report_error\<close> writes one line to \<open>std::cerr\<close>.\<close>

definition report_error :: "string \<Rightarrow> event list \<Rightarrow> event list" where
  "report_error message log = Report message # log"

subsection \<open>Buffers\<close>

text \<open>\<open>int export_dma_buf(int index)\<close>: the exported descriptor, or \<open>-1\<close>.\<close>

definition export_dma_buf ::
  "driver \<Rightarrow> camera \<Rightarrow> int \<Rightarrow> event list \<Rightarrow> (int \<times> event list) option" where
  "export_dma_buf drv c index log =
     (case ioctl_retry (expbuf drv) (Ioctl (fd' c) (VIDIOC_EXPBUF (word_of_int index))) log of
        None \<Rightarrow> None
      | Some (Fail errno, log1) \<Rightarrow> Some (- 1, log1)
      | Some (Ok efd, log1) \<Rightarrow> Some (efd, log1))"

text \<open>
  \<open>buffers_.resize(n)\<close>: a shorter vector is cut, a longer one is filled with
  value-initialised \<open>Buffer\<close>s (null pointer, length 0, descriptor 0).
\<close>

definition resize :: "buffer list \<Rightarrow> nat \<Rightarrow> buffer list" where
  "resize bs n =
     take n bs @ replicate (n - length bs) \<lparr>start = nullptr, length' = 0, dma_fd = 0\<rparr>"

text \<open>
  The first loop of \<open>request_buffers\<close>, over the indices \<open>i\<close> still to do (the size of
  \<open>buffers_\<close> does not change inside it): \<open>QUERYBUF\<close>, \<open>mmap\<close>, export. Each
  failure is an immediate \<open>return false\<close>.
\<close>

fun map_buffers :: "driver \<Rightarrow> nat list \<Rightarrow> camera \<Rightarrow> event list \<Rightarrow> unit outcome" where
  "map_buffers drv [] c log = Some (Inr (), c, log)"
| "map_buffers drv (i # rest) c log =
     (case ioctl_retry (querybuf drv) (Ioctl (fd' c) (VIDIOC_QUERYBUF (of_nat i))) log of
        None \<Rightarrow> None
      | Some (Fail errno, log1) \<Rightarrow>
          Some (Inl QuerybufFailed, c, report_error ''VIDIOC_QUERYBUF failed'' log1)
      | Some (Ok (len, off), log1) \<Rightarrow>
          (let log2 = Mmap (unat len) (fd' c) off # log1;
               addr = sys_mmap drv log2;
               c1 = c\<lparr>buffers' :=
                      (buffers' c)[i := (buffers' c ! i)\<lparr>length' := unat len, start := addr\<rparr>]\<rparr>
           in if addr = MAP_FAILED then
                Some (Inl MmapFailed, c1, report_error ''mmap failed'' log2)
              else
                (case export_dma_buf drv c1 (int i) log2 of
                   None \<Rightarrow> None
                 | Some (efd, log3) \<Rightarrow>
                     map_buffers drv rest
                       (c1\<lparr>buffers' := (buffers' c1)[i := (buffers' c1 ! i)\<lparr>dma_fd := efd\<rparr>]\<rparr>)
                       (if efd = - 1 then report_error ''Failed to export DMA-BUF'' log3
                        else log3))))"

text \<open>The second loop: every buffer is queued to the device.\<close>

fun queue_buffers :: "driver \<Rightarrow> nat list \<Rightarrow> camera \<Rightarrow> event list \<Rightarrow> unit outcome" where
  "queue_buffers drv [] c log = Some (Inr (), c, log)"
| "queue_buffers drv (i # rest) c log =
     (case ioctl_retry (qbuf drv) (Ioctl (fd' c) (VIDIOC_QBUF (of_nat i))) log of
        None \<Rightarrow> None
      | Some (Fail errno, log1) \<Rightarrow>
          Some (Inl QbufFailed, c, report_error ''VIDIOC_QBUF failed'' log1)
      | Some (Ok u, log1) \<Rightarrow> queue_buffers drv rest c log1)"

text \<open>\<open>bool request_buffers()\<close>.\<close>

definition request_buffers :: "driver \<Rightarrow> camera \<Rightarrow> event list \<Rightarrow> unit outcome" where
  "request_buffers drv c log =
     (case ioctl_retry (reqbufs drv) (Ioctl (fd' c) (VIDIOC_REQBUFS 4)) log of
        None \<Rightarrow> None
      | Some (Fail errno, log1) \<Rightarrow>
          Some (Inl ReqbufsFailed, c, report_error ''VIDIOC_REQBUFS failed'' log1)
      | Some (Ok count, log1) \<Rightarrow>
          if count < 2 then
            Some (Inl InsufficientBuffers, c, report_error ''Insufficient buffer memory'' log1)
          else
            (let c1 = c\<lparr>buffers' := resize (buffers' c) (unat count)\<rparr> in
             case map_buffers drv [0..<length (buffers' c1)] c1 log1 of
               None \<Rightarrow> None
             | Some (Inl e, c2, log2) \<Rightarrow> Some (Inl e, c2, log2)
             | Some (Inr u, c2, log2) \<Rightarrow>
                 queue_buffers drv [0..<length (buffers' c2)] c2 log2))"

text \<open>
  \<open>void uninit_device()\<close>: the loop over the buffers (the return values of
  \<open>munmap\<close> and \<open>close\<close> are not looked at), then \<open>buffers_.clear()\<close>.
\<close>

fun unmap_buffers :: "buffer list \<Rightarrow> event list \<Rightarrow> event list" where
  "unmap_buffers [] log = log"
| "unmap_buffers (b # bs) log =
     (let log1 = (if start b \<noteq> nullptr then Munmap (start b) (length' b) # log else log);
          log2 = (if dma_fd b \<noteq> - 1 then Close (dma_fd b) # log1 else log1)
      in unmap_buffers bs log2)"

definition uninit_device :: "camera \<Rightarrow> event list \<Rightarrow> camera \<times> event list" where
  "uninit_device c log = (c\<lparr>buffers' := []\<rparr>, unmap_buffers (buffers' c) log)"

subsection \<open>Session\<close>

text \<open>\<open>bool initialize()\<close>.\<close>

definition initialize :: "driver \<Rightarrow> camera \<Rightarrow> event list \<Rightarrow> unit outcome" where
  "initialize drv c log =
     (if initialized' c then Some (Inr (), c, log)
      else
        (let log1 = Open (device_path' c) # log;
             c1 = c\<lparr>fd' := sys_open drv log1\<rparr>
         in if fd' c1 = - 1 then
              Some (Inl DeviceOpenError, c1,
                    report_error (''Failed to open device: '' @ device_path' c) log1)
            else
              (case ioctl_retry (querycap drv) (Ioctl (fd' c1) VIDIOC_QUERYCAP) log1 of
                 None \<Rightarrow> None
               | Some (Fail errno, log2) \<Rightarrow>
                   Some (Inl QuerycapFailed, c1, report_error ''VIDIOC_QUERYCAP failed'' log2)
               | Some (Ok caps, log2) \<Rightarrow>
                   if caps AND V4L2_CAP_VIDEO_CAPTURE = 0 then
                     Some (Inl NoVideoCapture, c1,
                           report_error ''Device does not support video capture'' log2)
                   else if caps AND V4L2_CAP_STREAMING = 0 then
                     Some (Inl NoStreaming, c1,
                           report_error ''Device does not support streaming I/O'' log2)
                   else
                     (case ioctl_retry (s_fmt drv)
                             (Ioctl (fd' c1)
                                (VIDIOC_S_FMT (width' c1) (height' c1) (pixel_format' c1))) log2 of
                        None \<Rightarrow> None
                      | Some (Fail errno, log3) \<Rightarrow>
                          Some (Inl SetFormatFailed, c1,
                                report_error ''Failed to set video format'' log3)
                      | Some (Ok (w, h, pf, bytesperline), log3) \<Rightarrow>
                          if w \<noteq> width' c1 \<or> h \<noteq> height' c1 \<or> pf \<noteq> pixel_format' c1 then
                            Some (Inl FormatNotSupported, c1,
                                  report_error ''Device does not support requested format'' log3)
                          else
                            (let c2 = c1\<lparr>stride' := bytesperline\<rparr> in
                             case ioctl_retry (s_parm drv)
                                    (Ioctl (fd' c2) (VIDIOC_S_PARM 1 (fps' c2))) log3 of
                               None \<Rightarrow> None
                             | Some (Fail errno, log4) \<Rightarrow>
                                 Some (Inl SetFrameRateFailed, c2,
                                       report_error ''Failed to set frame rate'' log4)
                             | Some (Ok u, log4) \<Rightarrow>
                                 (case request_buffers drv c2 log4 of
                                    None \<Rightarrow> None
                                  | Some (Inl e, c3, log5) \<Rightarrow> Some (Inl e, c3, log5)
                                  | Some (Inr u', c3, log5) \<Rightarrow>
                                      Some (Inr (), c3\<lparr>initialized' := True\<rparr>, log5)))))))"

text \<open>\<open>bool stop_streaming()\<close>.\<close>

definition stop_streaming :: "driver \<Rightarrow> camera \<Rightarrow> event list \<Rightarrow> unit outcome" where
  "stop_streaming drv c log =
     (case ioctl_retry (streamoff drv) (Ioctl (fd' c) VIDIOC_STREAMOFF) log of
        None \<Rightarrow> None
      | Some (Fail errno, log1) \<Rightarrow>
          Some (Inl StreamoffFailed, c, report_error ''VIDIOC_STREAMOFF failed'' log1)
      | Some (Ok u, log1) \<Rightarrow> Some (Inr (), c, log1))"

text \<open>
  \<open>void stop()\<close>: nothing when not running; otherwise the flag is cleared, the capture
  thread joined, and streaming stopped (its result is dropped).
\<close>

definition stop :: "driver \<Rightarrow> camera \<Rightarrow> event list \<Rightarrow> (camera \<times> event list) option" where
  "stop drv c log =
     (if \<not> running' c then Some (c, log)
      else
        (case stop_streaming drv (c\<lparr>running' := False\<rparr>) log of
           None \<Rightarrow> None
         | Some (r, c1, log1) \<Rightarrow> Some (c1, log1)))"

text \<open>The destructor: \<open>stop()\<close>, \<open>uninit_device()\<close> if initialised, \<open>close(fd_)\<close>.\<close>

definition destroy :: "driver \<Rightarrow> camera \<Rightarrow> event list \<Rightarrow> (camera \<times> event list) option" where
  "destroy drv c log =
     (case stop drv c log of
        None \<Rightarrow> None
      | Some (c1, log1) \<Rightarrow>
          (case (if initialized' c1 then uninit_device c1 log1 else (c1, log1)) of
             (c2, log2) \<Rightarrow>
               if fd' c2 \<noteq> - 1 then Some (c2\<lparr>fd' := - 1\<rparr>, Close (fd' c2) # log2)
               else Some (c2, log2)))"

subsection \<open>Frames\<close>

text \<open>
  \<open>bool get_frame(CameraFrame& frame)\<close>: \<open>select\<close> with a 2 second timeout, then
  \<open>DQBUF\<close>, then the bounds check of the index the driver gave, then the frame. The
  frame is written only on success. The line printed to \<open>std::cout\<close> for each frame
  is left out.
\<close>

definition get_frame :: "driver \<Rightarrow> camera \<Rightarrow> event list \<Rightarrow> frame outcome" where
  "get_frame drv c log =
     (let log1 = Select (fd' c) # log in
      case sys_select drv log1 of
        (r, errno) \<Rightarrow>
          if r = - 1 then
            (if errno = EINTR then Some (Inl Interrupted, c, log1)
             else Some (Inl SelectFailed, c, report_error ''select failed'' log1))
          else if r = 0 then
            Some (Inl CaptureTimeout, c, report_error ''Capture timeout'' log1)
          else
            (case ioctl_retry (dqbuf drv) (Ioctl (fd' c) VIDIOC_DQBUF) log1 of
               None \<Rightarrow> None
             | Some (Fail errno', log2) \<Rightarrow>
                 if errno' = EAGAIN then Some (Inl NoData, c, log2)
                 else Some (Inl DqbufFailed, c, report_error ''VIDIOC_DQBUF failed'' log2)
             | Some (Ok buf, log2) \<Rightarrow>
                 if unat (dq_index buf) \<ge> length (buffers' c) then
                   Some (Inl InvalidBufferIndex, c, report_error ''Invalid buffer index'' log2)
                 else
                   (let b = buffers' c ! unat (dq_index buf) in
                    Some (Inr \<lparr>camera_id = camera_id' c,
                               buf_index = sint (dq_index buf),
                               fd = dma_fd b,
                               data = start b,
                               length_f = length' b,
                               bytes_used = unat (dq_bytesused buf),
                               width = width' c,
                               height = height' c,
                               stride = stride' c,
                               pixel_format = pixel_format' c,
                               timestamp = dq_timestamp buf,
                               sequence = dq_sequence buf,
                               return_buffer = dq_index buf\<rparr>, c, log2))))"

text \<open>\<open>bool return_buffer_to_queue(int index)\<close>.\<close>

definition return_buffer_to_queue ::
  "driver \<Rightarrow> camera \<Rightarrow> int \<Rightarrow> event list \<Rightarrow> unit outcome" where
  "return_buffer_to_queue drv c index log =
     (if index < 0 \<or> nat index \<ge> length (buffers' c) then
        Some (Inl InvalidBufferIndex, c, log)
      else
        (case ioctl_retry (qbuf drv) (Ioctl (fd' c) (VIDIOC_QBUF (word_of_int index))) log of
           None \<Rightarrow> None
         | Some (Fail errno, log1) \<Rightarrow>
             Some (Inl QbufFailed, c, report_error ''VIDIOC_QBUF failed'' log1)
         | Some (Ok u, log1) \<Rightarrow> Some (Inr (), c, log1)))"

text \<open>
  Calling \<open>frame.return_buffer()\<close>: the closure passes its captured \<open>__u32\<close> index to
  the \<open>int\<close> parameter.
\<close>

definition invoke_return_buffer :: "driver \<Rightarrow> camera \<Rightarrow> frame \<Rightarrow> event list \<Rightarrow> unit outcome" where
  "invoke_return_buffer drv c f log = return_buffer_to_queue drv c (sint (return_buffer f)) log"

subsection \<open>The capture loop\<close>

text \<open>
  The sink \<open>frame_callback_\<close> is the consumer's code: given the frame and the events
  so far it gives the events after it has run (it may call \<open>return_buffer\<close>, or keep
  the frame for later), or \<open>None\<close> if it never comes back. An empty
  \<open>std::function\<close> is \<open>None\<close>.
\<close>

type_synonym callback = "frame \<Rightarrow> event list \<Rightarrow> event list option"

text \<open>
  \<open>void capture_thread()\<close>: \<open>while (running_)\<close>. The flag is cleared by another
  thread; the number says how many times the loop reads it as true before it reads it as
  false.
\<close>

fun capture_thread ::
  "driver \<Rightarrow> callback option \<Rightarrow> camera \<Rightarrow> nat \<Rightarrow> event list \<Rightarrow> event list option" where
  "capture_thread drv frame_callback c 0 log = Some log"
| "capture_thread drv frame_callback c (Suc n) log =
     (case get_frame drv c log of
        None \<Rightarrow> None
      | Some (Inr f, c', log1) \<Rightarrow>
          (case frame_callback of
             None \<Rightarrow> capture_thread drv frame_callback c n log1
           | Some sink \<Rightarrow>
               (case sink f log1 of
                  None \<Rightarrow> None
                | Some log2 \<Rightarrow> capture_thread drv frame_callback c n log2))
      | Some (Inl e, c', log1) \<Rightarrow> capture_thread drv frame_callback c n (Sleep_ms 5 # log1))"

subsection \<open>Observations on the event log\<close>

text \<open>The buffer requests, the enqueue requests and the unmappings among the events.\<close>

fun is_reqbufs :: "event \<Rightarrow> bool" where
  "is_reqbufs (Ioctl d (VIDIOC_REQBUFS n)) = True"
| "is_reqbufs e = False"

fun is_qbuf :: "event \<Rightarrow> bool" where
  "is_qbuf (Ioctl d (VIDIOC_QBUF i)) = True"
| "is_qbuf e = False"

fun is_dqbuf :: "event \<Rightarrow> bool" where
  "is_dqbuf (Ioctl d VIDIOC_DQBUF) = True"
| "is_dqbuf e = False"

fun is_munmap :: "event \<Rightarrow> bool" where
  "is_munmap (Munmap a n) = True"
| "is_munmap e = False"

text \<open>One event log continues another with events that are no buffer requests.\<close>

definition extends_quietly :: "event list \<Rightarrow> event list \<Rightarrow> bool" where
  "extends_quietly log log' = (\<exists>evs. log' = evs @ log \<and> filter is_reqbufs evs = [])"

text \<open>An answer that makes \<open>IOCTL_RETRY\<close> go round again.\<close>

definition retryable :: "'a reply \<Rightarrow> bool" where
  "retryable r = (case r of Fail errno \<Rightarrow> errno = EINTR \<or> errno = EAGAIN | Ok v \<Rightarrow> False)"

subsection \<open>Example devices and sessions\<close>

text \<open>
  A well-behaved device: it opens as descriptor 3, supports capture and streaming,
  accepts the format and the frame rate as asked (two bytes per pixel), grants as many
  buffers as requested, each of 614400 bytes, maps and exports them, and hands out
  buffers round-robin with increasing sequence numbers.
\<close>

definition webcam :: driver where
  "webcam =
     \<lparr>sys_open = (\<lambda>h. 3),
      sys_mmap = (\<lambda>h. case h of Mmap n d off # _ \<Rightarrow> 0x7f0000000000 + ucast off | _ \<Rightarrow> MAP_FAILED),
      sys_select = (\<lambda>h. (1, 0)),
      querycap = (\<lambda>h. Ok 0x04200001),
      s_fmt = (\<lambda>h. case h of Ioctl d (VIDIOC_S_FMT w ht pf) # _ \<Rightarrow> Ok (w, ht, pf, 2 * w)
                     | _ \<Rightarrow> Fail EINVAL),
      s_parm = (\<lambda>h. Ok ()),
      reqbufs = (\<lambda>h. case h of Ioctl d (VIDIOC_REQBUFS n) # _ \<Rightarrow> Ok n | _ \<Rightarrow> Fail EINVAL),
      querybuf = (\<lambda>h. case h of Ioctl d (VIDIOC_QUERYBUF i) # _ \<Rightarrow> Ok (614400, i * 614400)
                        | _ \<Rightarrow> Fail EINVAL),
      expbuf = (\<lambda>h. case h of Ioctl d (VIDIOC_EXPBUF i) # _ \<Rightarrow> Ok (10 + uint i)
                      | _ \<Rightarrow> Fail EINVAL),
      qbuf = (\<lambda>h. Ok ()),
      dqbuf = (\<lambda>h. Ok \<lparr>dq_index = of_nat ((length (filter is_dqbuf h) - 1) mod 4),
                        dq_bytesused = 614400,
                        dq_timestamp = (0, 0),
                        dq_sequence = of_nat (length (filter is_dqbuf h) - 1)\<rparr>),
      streamon = (\<lambda>h. Ok ()),
      streamoff = (\<lambda>h. Ok ())\<rparr>"

text \<open>The session of \<open>example.cpp\<close>: \<open>/dev/video0\<close>, 640 x 480 at 30 fps, YUYV.\<close>

definition video0 :: camera where
  "video0 = CameraCapture ''/dev/video0'' 640 480 30 V4L2_PIX_FMT_YUYV"

text \<open>The same session once \<open>initialize\<close> has succeeded on \<open>webcam\<close>.\<close>

definition video0_ready :: camera where
  "video0_ready =
     video0\<lparr>fd' := 3, stride' := 1280, initialized' := True,
            buffers' := [\<lparr>start = 0x7f0000000000, length' = 614400, dma_fd = 10\<rparr>,
                         \<lparr>start = 0x7f0000096000, length' = 614400, dma_fd = 11\<rparr>,
                         \<lparr>start = 0x7f000012c000, length' = 614400, dma_fd = 12\<rparr>,
                         \<lparr>start = 0x7f00001c2000, length' = 614400, dma_fd = 13\<rparr>]\<rparr>"

text \<open>The events of that initialisation, newest first.\<close>

definition video0_init_log :: "event list" where
  "video0_init_log =
     [Ioctl 3 (VIDIOC_QBUF 3), Ioctl 3 (VIDIOC_QBUF 2), Ioctl 3 (VIDIOC_QBUF 1),
      Ioctl 3 (VIDIOC_QBUF 0),
      Ioctl 3 (VIDIOC_EXPBUF 3), Mmap 614400 3 1843200, Ioctl 3 (VIDIOC_QUERYBUF 3),
      Ioctl 3 (VIDIOC_EXPBUF 2), Mmap 614400 3 1228800, Ioctl 3 (VIDIOC_QUERYBUF 2),
      Ioctl 3 (VIDIOC_EXPBUF 1), Mmap 614400 3 614400, Ioctl 3 (VIDIOC_QUERYBUF 1),
      Ioctl 3 (VIDIOC_EXPBUF 0), Mmap 614400 3 0, Ioctl 3 (VIDIOC_QUERYBUF 0),
      Ioctl 3 (VIDIOC_REQBUFS 4),
      Ioctl 3 (VIDIOC_S_PARM 1 30),
      Ioctl 3 (VIDIOC_S_FMT 640 480 V4L2_PIX_FMT_YUYV),
      Ioctl 3 VIDIOC_QUERYCAP,
      Open ''/dev/video0'']"

text \<open>
  Devices that differ from \<open>webcam\<close> in one answer: one rejects the frame rate, one
  is interrupted once before it rejects it, one coerces every format to 320 x 240, one
  can map only the buffer at offset 0, one hands back a buffer index that was never
  allocated.
\<close>

definition fixed_rate_cam :: driver where
  "fixed_rate_cam = webcam\<lparr>s_parm := (\<lambda>h. Fail EINVAL)\<rparr>"

definition interrupted_rate_cam :: driver where
  "interrupted_rate_cam =
     webcam\<lparr>s_parm := (\<lambda>h. case h of
                           e # Ioctl d (VIDIOC_S_PARM n m) # _ \<Rightarrow> Fail EINVAL
                         | _ \<Rightarrow> Fail EINTR)\<rparr>"

definition qvga_cam :: driver where
  "qvga_cam = webcam\<lparr>s_fmt := (\<lambda>h. Ok (320, 240, V4L2_PIX_FMT_YUYV, 640))\<rparr>"

definition low_memory_cam :: driver where
  "low_memory_cam =
     webcam\<lparr>sys_mmap := (\<lambda>h. case h of
                             Mmap n d off # _ \<Rightarrow> if off = 0 then 0x7f0000000000 else MAP_FAILED
                           | _ \<Rightarrow> MAP_FAILED)\<rparr>"

definition stray_index_cam :: driver where
  "stray_index_cam =
     webcam\<lparr>dqbuf := (\<lambda>h. Ok \<lparr>dq_index = 7, dq_bytesused = 614400,
                                 dq_timestamp = (0, 0), dq_sequence = 0\<rparr>)\<rparr>"

text \<open>A second session that shares no constructor argument with \<open>video0\<close>.\<close>

definition V4L2_PIX_FMT_MJPEG :: u32 where "V4L2_PIX_FMT_MJPEG = 0x47504A4D"

definition video2 :: camera where
  "video2 = CameraCapture ''/dev/video2'' 1920 1080 60 V4L2_PIX_FMT_MJPEG"

text \<open>The second session once \<open>initialize\<close> has succeeded on \<open>webcam\<close>, and its events.\<close>

definition video2_ready :: camera where
  "video2_ready =
     video2\<lparr>fd' := 3, stride' := 3840, initialized' := True,
            buffers' := [\<lparr>start = 0x7f0000000000, length' = 614400, dma_fd = 10\<rparr>,
                         \<lparr>start = 0x7f0000096000, length' = 614400, dma_fd = 11\<rparr>,
                         \<lparr>start = 0x7f000012c000, length' = 614400, dma_fd = 12\<rparr>,
                         \<lparr>start = 0x7f00001c2000, length' = 614400, dma_fd = 13\<rparr>]\<rparr>"

definition video2_init_log :: "event list" where
  "video2_init_log =
     [Ioctl 3 (VIDIOC_QBUF 3), Ioctl 3 (VIDIOC_QBUF 2), Ioctl 3 (VIDIOC_QBUF 1),
      Ioctl 3 (VIDIOC_QBUF 0),
      Ioctl 3 (VIDIOC_EXPBUF 3), Mmap 614400 3 1843200, Ioctl 3 (VIDIOC_QUERYBUF 3),
      Ioctl 3 (VIDIOC_EXPBUF 2), Mmap 614400 3 1228800, Ioctl 3 (VIDIOC_QUERYBUF 2),
      Ioctl 3 (VIDIOC_EXPBUF 1), Mmap 614400 3 614400, Ioctl 3 (VIDIOC_QUERYBUF 1),
      Ioctl 3 (VIDIOC_EXPBUF 0), Mmap 614400 3 0, Ioctl 3 (VIDIOC_QUERYBUF 0),
      Ioctl 3 (VIDIOC_REQBUFS 4),
      Ioctl 3 (VIDIOC_S_PARM 1 60),
      Ioctl 3 (VIDIOC_S_FMT 1920 1080 V4L2_PIX_FMT_MJPEG),
      Ioctl 3 VIDIOC_QUERYCAP,
      Open ''/dev/video2'']"

text \<open>
  The first session after \<open>request_buffers\<close> has failed on \<open>low_memory_cam\<close>: buffer 0 is
  mapped and exported, buffer 1 holds \<open>MAP_FAILED\<close>, buffers 2 and 3 are as
  \<open>resize\<close> made them; and the events up to that point.
\<close>

definition video0_half_mapped :: camera where
  "video0_half_mapped =
     video0\<lparr>fd' := 3, stride' := 1280,
            buffers' := [\<lparr>start = 0x7f0000000000, length' = 614400, dma_fd = 10\<rparr>,
                         \<lparr>start = MAP_FAILED, length' = 614400, dma_fd = 0\<rparr>,
                         \<lparr>start = nullptr, length' = 0, dma_fd = 0\<rparr>,
                         \<lparr>start = nullptr, length' = 0, dma_fd = 0\<rparr>]\<rparr>"

definition video0_half_mapped_log :: "event list" where
  "video0_half_mapped_log =
     [Report ''mmap failed'', Mmap 614400 3 614400, Ioctl 3 (VIDIOC_QUERYBUF 1),
      Ioctl 3 (VIDIOC_EXPBUF 0), Mmap 614400 3 0, Ioctl 3 (VIDIOC_QUERYBUF 0),
      Ioctl 3 (VIDIOC_REQBUFS 4),
      Ioctl 3 (VIDIOC_S_PARM 1 30),
      Ioctl 3 (VIDIOC_S_FMT 640 480 V4L2_PIX_FMT_YUYV),
      Ioctl 3 VIDIOC_QUERYCAP,
      Open ''/dev/video0'']"

text \<open>
  A device that refuses to queue a buffer twice in a row: \<open>QBUF\<close> fails with
  \<open>EINVAL\<close> when the event before it is a \<open>QBUF\<close> of the same index.
\<close>

definition strict_cam :: driver where
  "strict_cam =
     webcam\<lparr>qbuf := (\<lambda>h. case h of
                         Ioctl d (VIDIOC_QBUF i) # Ioctl d' (VIDIOC_QBUF j) # _ \<Rightarrow>
                           if i = j then Fail EINVAL else Ok ()
                       | _ \<Rightarrow> Ok ())\<rparr>"

text \<open>The first frame that \<open>webcam\<close> delivers to the first session.\<close>

definition first_frame :: frame where
  "first_frame =
     \<lparr>camera_id = 0, buf_index = 0, fd = 10, data = 0x7f0000000000, length_f = 614400,
      bytes_used = 614400, width = 640, height = 480, stride = 1280,
      pixel_format = V4L2_PIX_FMT_YUYV, timestamp = (0, 0), sequence = 0,
      return_buffer = 0\<rparr>"

text \<open>A sink that keeps every frame for later, as a sink that pushes into a queue does.\<close>

definition keep_frame :: callback where
  "keep_frame f log = Some log"

section \<open>Properties of the queue\<close>

lemma wait_for_ready: "pred s \<Longrightarrow> wait_for pred s env = (True, s, 0)"
  by (cases env) simp_all

lemma wait_cv_ready: "pred s \<Longrightarrow> wait_cv pred s env = Some (s, 0)"
  by (cases env) simp_all

lemma wait_for_holds: "wait_for pred s env = (True, s', k) \<Longrightarrow> pred s'"
  by (induction env arbitrary: s k) (auto split: if_splits prod.splits)

lemma wait_cv_holds: "wait_cv pred s env = Some (s', k) \<Longrightarrow> pred s'"
  by (induction env arbitrary: s k) (auto split: if_splits option.splits)

text \<open>
  \<open>pop\<close> fails to return only by waiting without a timeout for a queue that stays
  empty and unterminated: the front of an empty queue is never read.
\<close>

lemma pop_returns:
  "pop timeout_ms q env = None \<longleftrightarrow>
     timeout_ms < 0 \<and> wait_cv not_empty_pred q env = None"
proof (cases "0 \<le> timeout_ms")
  case True
  obtain r q' k where w: "wait_for not_empty_pred q env = (r, q', k)"
    by (cases "wait_for not_empty_pred q env")
  show ?thesis
  proof (cases r)
    case True
    with w have "not_empty_pred q'" by (auto dest: wait_for_holds)
    with w True \<open>0 \<le> timeout_ms\<close> show ?thesis
      by (cases "queue q'") (auto simp: pop_def not_empty_pred_def)
  next
    case False
    with w \<open>0 \<le> timeout_ms\<close> show ?thesis by (simp add: pop_def)
  qed
next
  case False
  show ?thesis
  proof (cases "wait_cv not_empty_pred q env")
    case None
    with False show ?thesis by (simp add: pop_def)
  next
    case (Some a)
    obtain q' k where a: "a = (q', k)" by (cases a)
    with Some have "not_empty_pred q'" by (auto dest: wait_cv_holds)
    with Some a False show ?thesis
      by (cases "queue q'") (auto simp: pop_def not_empty_pred_def)
  qed
qed

text \<open>
  C4: once \<open>terminate()\<close> has been called, \<open>push\<close> returns \<open>false\<close> for every item,
  every timeout (negative, i.e. infinite, or not), every capacity and whatever the other
  threads would do; it returns without blocking once and the queue is left as it was.
\<close>

theorem push_after_terminate_fails:
  "push item timeout_ms (terminate q) env =
     Some \<lparr>pushed = False, after_push = terminate q, push_blocked = 0\<rparr>"
  by (simp add: push_def terminate_def not_full_pred_def wait_for_ready wait_cv_ready)

lemma pop_terminated:
  "terminated q \<Longrightarrow>
   pop timeout_ms q env =
     Some \<lparr>popped = (queue q \<noteq> []),
           item_out = (case queue q of [] \<Rightarrow> None | x # rest \<Rightarrow> Some x),
           after_pop = q\<lparr>queue := tl (queue q)\<rparr>,
           pop_blocked = 0\<rparr>"
  by (cases q; cases "queue q")
     (simp_all add: pop_def not_empty_pred_def wait_for_ready wait_cv_ready)

lemma pop_many_terminated:
  "terminated q \<Longrightarrow>
   pop_many n timeout_ms q = (take n (queue q), q\<lparr>queue := drop n (queue q)\<rparr>)"
proof (induction n arbitrary: q)
  case 0
  then show ?case by simp
next
  case (Suc n)
  show ?case
  proof (cases "queue q")
    case Nil
    with Suc.prems show ?thesis by (simp add: pop_terminated)
  next
    case (Cons x rest)
    from Suc.prems have "terminated (q\<lparr>queue := rest\<rparr>)" by simp
    from Suc.IH[OF this] Cons Suc.prems show ?thesis
      by (simp add: pop_terminated)
  qed
qed

lemma push_unbounded:
  "max_size q = 0 \<Longrightarrow>
   push item timeout_ms q env =
     Some \<lparr>pushed = (\<not> terminated q),
           after_push = (if terminated q then q else q\<lparr>queue := queue q @ [item]\<rparr>),
           push_blocked = 0\<rparr>"
  by (simp add: push_def)

lemma push_many_unbounded:
  "max_size q = 0 \<Longrightarrow> \<not> terminated q \<Longrightarrow>
   push_many xs timeout_ms q = q\<lparr>queue := queue q @ xs\<rparr>"
proof (induction xs arbitrary: q)
  case Nil
  then show ?case by simp
next
  case (Cons x xs)
  let ?q1 = "q\<lparr>queue := queue q @ [x]\<rparr>"
  from Cons.prems have "max_size ?q1 = 0" "\<not> terminated ?q1" by simp_all
  from Cons.IH[OF this] Cons.prems show ?case
    by (simp add: push_unbounded)
qed

lemma push_with_space:
  "\<not> terminated q \<Longrightarrow> max_size q = 0 \<or> length (queue q) < max_size q \<Longrightarrow>
   push item timeout_ms q env =
     Some \<lparr>pushed = True, after_push = q\<lparr>queue := queue q @ [item]\<rparr>, push_blocked = 0\<rparr>"
  by (auto simp: push_def not_full_pred_def wait_for_ready wait_cv_ready)

lemma push_puts_last:
  "push item timeout_ms q env = Some r \<Longrightarrow> pushed r \<Longrightarrow>
   queue (after_push r) \<noteq> [] \<and> last (queue (after_push r)) = item"
  by (auto simp: push_def Let_def split: if_splits prod.splits option.splits bool.splits)

lemma push_many_with_space:
  "\<not> terminated q \<Longrightarrow> max_size q = 0 \<or> length (queue q) + length xs \<le> max_size q \<Longrightarrow>
   push_many xs timeout_ms q = q\<lparr>queue := queue q @ xs\<rparr>"
proof (induction xs arbitrary: q)
  case Nil
  then show ?case by simp
next
  case (Cons x xs)
  let ?q1 = "q\<lparr>queue := queue q @ [x]\<rparr>"
  from Cons.prems have p: "push x timeout_ms q [] =
      Some \<lparr>pushed = True, after_push = ?q1, push_blocked = 0\<rparr>"
    by (intro push_with_space) auto
  from Cons.prems have "\<not> terminated ?q1"
    "max_size ?q1 = 0 \<or> length (queue ?q1) + length xs \<le> max_size ?q1" by auto
  from Cons.IH[OF this] p show ?case by simp
qed

text \<open>
  C5: on a queue on which \<open>terminate()\<close> has been called, \<open>pop\<close> never blocks,
  whatever the timeout: it hands out the front item while the queue is non-empty and fails
  exactly when the queue is empty. Popping again and again therefore gives the queued
  items in the order of the queue, then fails. The order of the queue is the order of the
  pushes, for every queue, bounded or not: a push that finds room succeeds at once and
  appends its item at the back, every successful push leaves its item as the last of
  the queue, and items pushed one after the other into a queue that has room for them
  come out, after \<open>terminate()\<close>, behind the items that were already there and in the
  order in which they were pushed.
\<close>

theorem pop_after_terminate_drains:
  fixes q :: "'a tsq" and xs :: "'a list"
  shows
  "pop timeout_ms (terminate q) env =
     Some \<lparr>popped = (queue q \<noteq> []),
           item_out = (case queue q of [] \<Rightarrow> None | x # rest \<Rightarrow> Some x),
           after_pop = (terminate q)\<lparr>queue := tl (queue q)\<rparr>,
           pop_blocked = 0\<rparr>
   \<and> pop_many n timeout_ms (terminate q) =
       (take n (queue q), (terminate q)\<lparr>queue := drop n (queue q)\<rparr>)
   \<and> pop_many (Suc (length xs)) timeout_ms
         (terminate (push_many xs push_timeout_ms (ThreadSafeQueue 0))) =
       (xs, terminate (ThreadSafeQueue 0))
   \<and> (\<not> terminated q \<and> (max_size q = 0 \<or> length (queue q) < max_size q) \<longrightarrow>
        push item push_timeout_ms q push_env =
          Some \<lparr>pushed = True, after_push = q\<lparr>queue := queue q @ [item]\<rparr>,
                push_blocked = 0\<rparr>)
   \<and> (push item push_timeout_ms q push_env = Some r \<and> pushed r \<longrightarrow>
        queue (after_push r) \<noteq> [] \<and> last (queue (after_push r)) = item)
   \<and> (\<not> terminated q \<and> (max_size q = 0 \<or> length (queue q) + length xs \<le> max_size q) \<longrightarrow>
        push_many xs push_timeout_ms q = q\<lparr>queue := queue q @ xs\<rparr> \<and>
        pop_many (Suc (length (queue q) + length xs)) timeout_ms
          (terminate (push_many xs push_timeout_ms q)) =
          (queue q @ xs, (terminate q)\<lparr>queue := []\<rparr>))"
proof -
  have t: "terminated (terminate q)" for q :: "'a tsq"
    by (simp add: terminate_def)
  have a: "pop timeout_ms (terminate q) env =
     Some \<lparr>popped = (queue q \<noteq> []),
           item_out = (case queue q of [] \<Rightarrow> None | x # rest \<Rightarrow> Some x),
           after_pop = (terminate q)\<lparr>queue := tl (queue q)\<rparr>,
           pop_blocked = 0\<rparr>"
    using pop_terminated[OF t, of timeout_ms q env] by (simp add: terminate_def)
  have b: "pop_many n timeout_ms (terminate q) =
       (take n (queue q), (terminate q)\<lparr>queue := drop n (queue q)\<rparr>)"
    using pop_many_terminated[OF t, of n timeout_ms q] by (simp add: terminate_def)
  have "push_many xs push_timeout_ms (ThreadSafeQueue 0) =
          (ThreadSafeQueue 0)\<lparr>queue := xs\<rparr>"
    using push_many_unbounded[of "ThreadSafeQueue 0" xs push_timeout_ms]
    by (simp add: ThreadSafeQueue_def)
  then have c: "pop_many (Suc (length xs)) timeout_ms
         (terminate (push_many xs push_timeout_ms (ThreadSafeQueue 0))) =
       (xs, terminate (ThreadSafeQueue 0))"
    using pop_many_terminated[OF t, of "Suc (length xs)" timeout_ms
            "(ThreadSafeQueue 0)\<lparr>queue := xs\<rparr>"]
    by (simp add: terminate_def ThreadSafeQueue_def)
  have d: "\<not> terminated q \<and> (max_size q = 0 \<or> length (queue q) < max_size q) \<longrightarrow>
        push item push_timeout_ms q push_env =
          Some \<lparr>pushed = True, after_push = q\<lparr>queue := queue q @ [item]\<rparr>,
                push_blocked = 0\<rparr>"
    using push_with_space[of q item push_timeout_ms push_env] by blast
  have e: "push item push_timeout_ms q push_env = Some r \<and> pushed r \<longrightarrow>
        queue (after_push r) \<noteq> [] \<and> last (queue (after_push r)) = item"
    using push_puts_last[of item push_timeout_ms q push_env r] by blast
  have f: "\<not> terminated q \<and> (max_size q = 0 \<or> length (queue q) + length xs \<le> max_size q) \<longrightarrow>
        push_many xs push_timeout_ms q = q\<lparr>queue := queue q @ xs\<rparr> \<and>
        pop_many (Suc (length (queue q) + length xs)) timeout_ms
          (terminate (push_many xs push_timeout_ms q)) =
          (queue q @ xs, (terminate q)\<lparr>queue := []\<rparr>)"
  proof
    assume h: "\<not> terminated q \<and> (max_size q = 0 \<or> length (queue q) + length xs \<le> max_size q)"
    then have pm: "push_many xs push_timeout_ms q = q\<lparr>queue := queue q @ xs\<rparr>"
      using push_many_with_space[of q xs push_timeout_ms] by blast
    show "push_many xs push_timeout_ms q = q\<lparr>queue := queue q @ xs\<rparr> \<and>
        pop_many (Suc (length (queue q) + length xs)) timeout_ms
          (terminate (push_many xs push_timeout_ms q)) =
          (queue q @ xs, (terminate q)\<lparr>queue := []\<rparr>)"
      using pm pop_many_terminated[OF t, of "Suc (length (queue q) + length xs)" timeout_ms
            "q\<lparr>queue := queue q @ xs\<rparr>"]
      by (simp add: terminate_def)
  qed
  from a b c d e f show ?thesis by blast
qed

text \<open>
  The drain at work: three items pushed into an unbounded queue, the queue terminated,
  five pops asked for; a pop on an empty terminated queue; a push into a queue of
  capacity 3 holding two items; two items pushed behind a third in a queue of capacity
  3, then drained.
\<close>

theorem pop_after_terminate_drains_witness:
  "pop_many 5 50 (terminate (push_many [10, 20, 30 :: nat] (- 1) (ThreadSafeQueue 0))) =
     ([10, 20, 30], terminate (ThreadSafeQueue 0))
   \<and> pop (- 1) (terminate (ThreadSafeQueue 2 :: nat tsq)) [] =
       Some \<lparr>popped = False, item_out = None, after_pop = terminate (ThreadSafeQueue 2),
             pop_blocked = 0\<rparr>
   \<and> push (30 :: nat) 50 \<lparr>queue = [10, 20], max_size = 3, terminated = False\<rparr> [terminate] =
       Some \<lparr>pushed = True,
             after_push = \<lparr>queue = [10, 20, 30], max_size = 3, terminated = False\<rparr>,
             push_blocked = 0\<rparr>
   \<and> last (queue \<lparr>queue = [10, 20, 30 :: nat], max_size = 3, terminated = False\<rparr>) = 30
   \<and> pop_many 3 50 (terminate (push_many [20, 30 :: nat] 50
         \<lparr>queue = [10], max_size = 3, terminated = False\<rparr>)) =
       ([10, 20, 30], \<lparr>queue = [], max_size = 3, terminated = True\<rparr>)"
  using pop_after_terminate_drains
          [where timeout_ms = 50 and n = 5 and env = "[]"
             and q = "push_many [10, 20, 30 :: nat] (- 1) (ThreadSafeQueue 0)"
             and xs = "[]" and push_timeout_ms = 0 and item = 0 and push_env = "[]"
             and r = "\<lparr>pushed = False, after_push = ThreadSafeQueue 0, push_blocked = 0\<rparr>"]
        pop_after_terminate_drains
          [where timeout_ms = "- 1" and n = 0 and env = "[]"
             and q = "ThreadSafeQueue 2 :: nat tsq"
             and xs = "[]" and push_timeout_ms = 0 and item = 0 and push_env = "[]"
             and r = "\<lparr>pushed = False, after_push = ThreadSafeQueue 0, push_blocked = 0\<rparr>"]
        pop_after_terminate_drains
          [where timeout_ms = 50 and n = 0 and env = "[]"
             and q = "\<lparr>queue = [10, 20 :: nat], max_size = 3, terminated = False\<rparr>"
             and xs = "[]" and push_timeout_ms = 50 and item = 30 and push_env = "[terminate]"
             and r = "\<lparr>pushed = True,
                after_push = \<lparr>queue = [10, 20, 30], max_size = 3, terminated = False\<rparr>,
                push_blocked = 0\<rparr>"]
        pop_after_terminate_drains
          [where timeout_ms = 50 and n = 3 and env = "[]"
             and q = "\<lparr>queue = [10 :: nat], max_size = 3, terminated = False\<rparr>"
             and xs = "[20, 30]" and push_timeout_ms = 50 and item = 0 and push_env = "[]"
             and r = "\<lparr>pushed = False, after_push = ThreadSafeQueue 0, push_blocked = 0\<rparr>"]
  by (simp add: push_unbounded push_with_space push_many_with_space pop_terminated
                pop_many_terminated ThreadSafeQueue_def terminate_def)

text \<open>
  C10: on a queue built with \<open>max_size = 0\<close>, \<open>push\<close> never blocks and succeeds
  exactly when the queue has not been terminated; neither the timeout nor what the other
  threads would do enters the result.
\<close>

theorem unbounded_push_never_waits:
  "max_size q = 0 \<Longrightarrow>
   push item timeout_ms q env =
     Some \<lparr>pushed = (\<not> terminated q),
           after_push = (if terminated q then q else q\<lparr>queue := queue q @ [item]\<rparr>),
           push_blocked = 0\<rparr>"
  by (simp add: push_def)

text \<open>An unbounded push with a 50 ms timeout, and one on a terminated queue.\<close>

theorem unbounded_push_never_waits_witness:
  "push (7 :: nat) 50 (ThreadSafeQueue 0) [terminate] =
     Some \<lparr>pushed = True,
           after_push = \<lparr>queue = [7], max_size = 0, terminated = False\<rparr>,
           push_blocked = 0\<rparr>
   \<and> push (7 :: nat) (- 1) (terminate (ThreadSafeQueue 0)) [] =
     Some \<lparr>pushed = False,
           after_push = \<lparr>queue = [], max_size = 0, terminated = True\<rparr>,
           push_blocked = 0\<rparr>"
  using unbounded_push_never_waits[of "ThreadSafeQueue 0" "7 :: nat" 50 "[terminate]"]
        unbounded_push_never_waits[of "terminate (ThreadSafeQueue 0)" "7 :: nat" "- 1" "[]"]
  by (simp add: ThreadSafeQueue_def terminate_def)

section \<open>Properties of the retry loop\<close>

text \<open>
  One round of \<open>IOCTL_RETRY\<close>: a final answer ends the loop, a retryable one repeats
  the call. When the loop returns, the call has been issued one or more times and the
  result is the driver's answer to the last of them, which is not retryable.
\<close>

lemma ioctl_retry_done:
  "\<not> retryable (answer (call # log)) \<Longrightarrow>
   ioctl_retry answer call log = Some (answer (call # log), call # log)"
  by (subst ioctl_retry.simps) (auto simp: retryable_def Let_def split: reply.splits)

lemma ioctl_retry_again:
  "retryable (answer (call # log)) \<Longrightarrow>
   ioctl_retry answer call log = ioctl_retry answer call (call # log)"
  by (subst ioctl_retry.simps) (auto simp: retryable_def Let_def split: reply.splits)

lemma ioctl_retry_log_raw:
  assumes "ioctl_retry answer call log = Some y"
  shows "\<exists>k. snd y = replicate (Suc k) call @ log \<and> fst y = answer (snd y) \<and> \<not> retryable (fst y)"
proof (rule ioctl_retry.raw_induct
    [where P = "\<lambda>answer call log y. \<exists>k. snd y = replicate (Suc k) call @ log \<and>
                  fst y = answer (snd y) \<and> \<not> retryable (fst y)", OF _ assms], goal_cases)
  case (1 retry answer call log y)
  show ?case
  proof (cases "retryable (answer (call # log))")
    case True
    with 1(2) have "retry answer call (call # log) = Some y"
      by (auto simp: retryable_def Let_def split: reply.splits if_splits)
    from 1(1)[OF this] obtain k where
      "snd y = replicate (Suc k) call @ call # log" "fst y = answer (snd y)" "\<not> retryable (fst y)"
      by blast
    then have "snd y = replicate (Suc (Suc k)) call @ log \<and> fst y = answer (snd y) \<and> \<not> retryable (fst y)"
      by (simp add: replicate_app_Cons_same)
    then show ?thesis by blast
  next
    case False
    with 1(2) have "snd y = replicate (Suc 0) call @ log \<and> fst y = answer (snd y) \<and> \<not> retryable (fst y)"
      by (auto simp: retryable_def Let_def split: reply.splits if_splits)
    then show ?thesis by blast
  qed
qed

lemma ioctl_retry_log:
  "ioctl_retry answer call log = Some (r, log') \<Longrightarrow>
   \<exists>k. log' = replicate (Suc k) call @ log \<and> r = answer log' \<and> \<not> retryable r"
  using ioctl_retry_log_raw[of answer call log "(r, log')"] by auto

lemma ioctl_retry_returns:
  "\<not> retryable (answer (replicate (Suc n) call @ log)) \<Longrightarrow>
   \<exists>r log'. ioctl_retry answer call log = Some (r, log')"
proof (induction n arbitrary: log)
  case 0
  then show ?case by (simp add: ioctl_retry_done)
next
  case (Suc n)
  show ?case
  proof (cases "retryable (answer (call # log))")
    case True
    from Suc.prems have "\<not> retryable (answer (replicate (Suc n) call @ call # log))"
      by (simp add: replicate_app_Cons_same)
    from Suc.IH[OF this] show ?thesis using True by (simp add: ioctl_retry_again[of answer call log])
  next
    case False
    then show ?thesis by (simp add: ioctl_retry_done)
  qed
qed

text \<open>
  The loop returns as soon as the driver gives a final answer: if the answer to some
  attempt is not retryable, the loop ends at that attempt or an earlier one, with the
  driver's answer to the attempt it ends at.
\<close>

lemma ioctl_retry_returns_at:
  "\<not> retryable (answer (replicate (Suc n) call @ log)) \<Longrightarrow>
   \<exists>k\<le>n. ioctl_retry answer call log =
            Some (answer (replicate (Suc k) call @ log), replicate (Suc k) call @ log)"
proof (induction n arbitrary: log)
  case 0
  then show ?case by (simp add: ioctl_retry_done)
next
  case (Suc n)
  show ?case
  proof (cases "retryable (answer (call # log))")
    case True
    from Suc.prems have "\<not> retryable (answer (replicate (Suc n) call @ call # log))"
      by (simp add: replicate_app_Cons_same)
    from Suc.IH[OF this] obtain k where
      k: "k \<le> n"
      "ioctl_retry answer call (call # log) =
         Some (answer (replicate (Suc k) call @ call # log), replicate (Suc k) call @ call # log)"
      by blast
    have e: "replicate (Suc k) call @ call # log = replicate (Suc (Suc k)) call @ log"
      by (simp add: replicate_app_Cons_same)
    from k(2) have "ioctl_retry answer call (call # log) =
         Some (answer (replicate (Suc (Suc k)) call @ log), replicate (Suc (Suc k)) call @ log)"
      by (simp only: e)
    with ioctl_retry_again[of answer call log, OF True] have
      "ioctl_retry answer call log =
         Some (answer (replicate (Suc (Suc k)) call @ log), replicate (Suc (Suc k)) call @ log)"
      by (simp only:)
    moreover from k(1) have "Suc k \<le> Suc n" by simp
    ultimately show ?thesis by blast
  next
    case False
    then have "ioctl_retry answer call log =
         Some (answer (replicate (Suc 0) call @ log), replicate (Suc 0) call @ log)"
      by (simp add: ioctl_retry_done)
    then show ?thesis by blast
  qed
qed

section \<open>Properties of buffer allocation\<close>

text \<open>
  What a returning \<open>IOCTL_RETRY\<close> adds to the events of one kind: nothing when the call
  is not of that kind, the call itself one or more times when it is.
\<close>

lemma ioctl_retry_filter:
  assumes "ioctl_retry answer call log = Some (r, log')" and "\<not> P call"
  shows "filter P log' = filter P log"
  using ioctl_retry_log[OF assms(1)] assms(2) by auto

lemma ioctl_retry_filter_hit:
  assumes "ioctl_retry answer call log = Some (r, log')" and "P call"
  shows "\<exists>k. filter P log' = replicate (Suc k) call @ filter P log"
  using ioctl_retry_log[OF assms(1)] assms(2) by auto








lemma quiet_filter: "extends_quietly log log' \<Longrightarrow> filter is_reqbufs log' = filter is_reqbufs log"
  by (auto simp: extends_quietly_def)







section \<open>Example runs\<close>

text \<open>The buffer indices of the loops of \<open>request_buffers\<close> on a pool of four.\<close>

lemma upt_4: "[0..<4] = [0, Suc 0, Suc (Suc 0), Suc (Suc (Suc 0))]"
  by (simp add: upt_rec)

lemma replicate_4: "replicate 4 x = [x, x, x, x]"
  by (simp add: numeral_eq_Suc)

lemmas run_defs =
  initialize_def request_buffers_def export_dma_buf_def resize_def get_frame_def
  return_buffer_to_queue_def invoke_return_buffer_def destroy_def stop_def
  stop_streaming_def uninit_device_def report_error_def
  CameraCapture_def video0_def video2_def video0_ready_def video0_init_log_def
  webcam_def fixed_rate_cam_def interrupted_rate_cam_def qvga_cam_def low_memory_cam_def
  stray_index_cam_def strict_cam_def keep_frame_def first_frame_def
  video2_ready_def video2_init_log_def video0_half_mapped_def video0_half_mapped_log_def
  V4L2_PIX_FMT_YUYV_def V4L2_PIX_FMT_MJPEG_def
  retryable_def EINTR_def EAGAIN_def EINVAL_def MAP_FAILED_def nullptr_def
  V4L2_CAP_VIDEO_CAPTURE_def V4L2_CAP_STREAMING_def
  ioctl_retry_done ioctl_retry_again upt_4 replicate_4 Let_def


section \<open>Properties of the session\<close>




text \<open>
  C6 as the specification states it fails: on a device that rejects \<open>VIDIOC_S_PARM\<close>,
  \<open>initialize\<close> reports the failure and returns \<open>false\<close>; no buffer is requested.
\<close>

theorem frame_rate_failure_is_fatal_counterexample:
  "initialize fixed_rate_cam video0 [] =
     Some (Inl SetFrameRateFailed, video0\<lparr>fd' := 3, stride' := 1280\<rparr>,
           [Report ''Failed to set frame rate'',
            Ioctl 3 (VIDIOC_S_PARM 1 30),
            Ioctl 3 (VIDIOC_S_FMT 640 480 V4L2_PIX_FMT_YUYV),
            Ioctl 3 VIDIOC_QUERYCAP,
            Open ''/dev/video0''])"
  by (simp add: run_defs)

text \<open>
  C6, as the code has it: when the device opens, supports capture and streaming and
  grants the format as asked, and the frame-rate request then fails (after any number of
  retries), \<open>initialize\<close> reports \<open>Failed to set frame rate\<close> and returns
  \<open>false\<close>; the last event is that report, so no buffer allocation follows, and the
  session stays uninitialised with its pool untouched.
\<close>

theorem initialize_frame_rate_failure_is_fatal:
  assumes "\<not> initialized' c"
    and "sys_open drv (Open (device_path' c) # log) = d" and "d \<noteq> - 1"
    and "ioctl_retry (querycap drv) (Ioctl d VIDIOC_QUERYCAP) (Open (device_path' c) # log) =
           Some (Ok caps, log2)"
    and "caps AND V4L2_CAP_VIDEO_CAPTURE \<noteq> 0" and "caps AND V4L2_CAP_STREAMING \<noteq> 0"
    and "ioctl_retry (s_fmt drv)
           (Ioctl d (VIDIOC_S_FMT (width' c) (height' c) (pixel_format' c))) log2 =
           Some (Ok (width' c, height' c, pixel_format' c, bytesperline), log3)"
    and "ioctl_retry (s_parm drv) (Ioctl d (VIDIOC_S_PARM 1 (fps' c))) log3 =
           Some (Fail errno, log4)"
  shows "initialize drv c log =
           Some (Inl SetFrameRateFailed, c\<lparr>fd' := d, stride' := bytesperline\<rparr>,
                 Report ''Failed to set frame rate'' # log4)"
  using assms by (simp add: initialize_def Let_def report_error_def)

text \<open>A device that is interrupted once (\<open>EINTR\<close>, retried) and then rejects the frame rate.\<close>

theorem initialize_frame_rate_failure_is_fatal_witness:
  "initialize interrupted_rate_cam video0 [] =
     Some (Inl SetFrameRateFailed, video0\<lparr>fd' := 3, stride' := 1280\<rparr>,
           [Report ''Failed to set frame rate'',
            Ioctl 3 (VIDIOC_S_PARM 1 30),
            Ioctl 3 (VIDIOC_S_PARM 1 30),
            Ioctl 3 (VIDIOC_S_FMT 640 480 V4L2_PIX_FMT_YUYV),
            Ioctl 3 VIDIOC_QUERYCAP,
            Open ''/dev/video0''])"
  using initialize_frame_rate_failure_is_fatal
          [of video0 interrupted_rate_cam "[]" 3 "0x04200001"
              "[Ioctl 3 VIDIOC_QUERYCAP, Open ''/dev/video0'']" 1280
              "[Ioctl 3 (VIDIOC_S_FMT 640 480 V4L2_PIX_FMT_YUYV),
                Ioctl 3 VIDIOC_QUERYCAP, Open ''/dev/video0'']"
              EINVAL
              "[Ioctl 3 (VIDIOC_S_PARM 1 30), Ioctl 3 (VIDIOC_S_PARM 1 30),
                Ioctl 3 (VIDIOC_S_FMT 640 480 V4L2_PIX_FMT_YUYV),
                Ioctl 3 VIDIOC_QUERYCAP, Open ''/dev/video0'']"]
  by (simp add: run_defs)

text \<open>
  C7: when the device opens and supports capture and streaming, and the answer to the
  format request is anything but success with exactly the requested width, height and
  pixel format (a failure, or a format coerced in any of the three), \<open>initialize\<close>
  returns \<open>false\<close> with a format error; the last event is the report, so neither the
  frame rate nor any buffer is requested afterwards.
\<close>

theorem initialize_rejects_coerced_format:
  assumes "\<not> initialized' c"
    and "sys_open drv (Open (device_path' c) # log) = d" and "d \<noteq> - 1"
    and "ioctl_retry (querycap drv) (Ioctl d VIDIOC_QUERYCAP) (Open (device_path' c) # log) =
           Some (Ok caps, log2)"
    and "caps AND V4L2_CAP_VIDEO_CAPTURE \<noteq> 0" and "caps AND V4L2_CAP_STREAMING \<noteq> 0"
    and "ioctl_retry (s_fmt drv)
           (Ioctl d (VIDIOC_S_FMT (width' c) (height' c) (pixel_format' c))) log2 =
           Some (answer, log3)"
    and "\<forall>bytesperline. answer \<noteq> Ok (width' c, height' c, pixel_format' c, bytesperline)"
  shows "initialize drv c log =
           (case answer of
              Fail errno \<Rightarrow>
                Some (Inl SetFormatFailed, c\<lparr>fd' := d\<rparr>,
                      Report ''Failed to set video format'' # log3)
            | Ok granted \<Rightarrow>
                Some (Inl FormatNotSupported, c\<lparr>fd' := d\<rparr>,
                      Report ''Device does not support requested format'' # log3))"
  using assms
  by (cases answer) (auto simp: initialize_def Let_def report_error_def)

text \<open>A device that coerces the requested 640 x 480 to 320 x 240.\<close>

theorem initialize_rejects_coerced_format_witness:
  "initialize qvga_cam video0 [] =
     Some (Inl FormatNotSupported, video0\<lparr>fd' := 3\<rparr>,
           [Report ''Device does not support requested format'',
            Ioctl 3 (VIDIOC_S_FMT 640 480 V4L2_PIX_FMT_YUYV),
            Ioctl 3 VIDIOC_QUERYCAP,
            Open ''/dev/video0''])"
  using initialize_rejects_coerced_format
          [of video0 qvga_cam "[]" 3 "0x04200001"
              "[Ioctl 3 VIDIOC_QUERYCAP, Open ''/dev/video0'']"
              "Ok (320, 240, V4L2_PIX_FMT_YUYV, 640)"
              "[Ioctl 3 (VIDIOC_S_FMT 640 480 V4L2_PIX_FMT_YUYV),
                Ioctl 3 VIDIOC_QUERYCAP, Open ''/dev/video0'']"]
  by (simp add: run_defs)

section \<open>Properties of frame delivery\<close>

text \<open>
  C8: \<open>get_frame\<close> checks the index the driver hands back against the size of the
  pool before it uses it. A frame is produced only for an index inside the pool, and
  then its data pointer, length and descriptor are those of that pool entry. When the
  wait succeeds and the dequeue answers with an index outside the pool, \<open>get_frame\<close>
  reports \<open>Invalid buffer index\<close>, returns \<open>false\<close> and builds no frame.
\<close>

theorem get_frame_revalidates_index:
  "(get_frame drv c log = Some (Inr f, c', log') \<longrightarrow>
      unat (return_buffer f) < length (buffers' c) \<and>
      data f = start (buffers' c ! unat (return_buffer f)) \<and>
      length_f f = length' (buffers' c ! unat (return_buffer f)) \<and>
      fd f = dma_fd (buffers' c ! unat (return_buffer f)) \<and>
      buf_index f = sint (return_buffer f) \<and>
      (\<exists>buf. dqbuf drv log' = Ok buf \<and> dq_index buf = return_buffer f))
   \<and> (fst (sys_select drv (Select (fd' c) # log)) \<noteq> - 1 \<and>
      fst (sys_select drv (Select (fd' c) # log)) \<noteq> 0 \<and>
      ioctl_retry (dqbuf drv) (Ioctl (fd' c) VIDIOC_DQBUF) (Select (fd' c) # log) =
        Some (Ok buf, log2) \<and>
      length (buffers' c) \<le> unat (dq_index buf) \<longrightarrow>
      get_frame drv c log =
        Some (Inl InvalidBufferIndex, c, Report ''Invalid buffer index'' # log2))"
proof (rule conjI; rule impI)
  assume ok: "get_frame drv c log = Some (Inr f, c', log')"
  then obtain buf0 where
    retry: "ioctl_retry (dqbuf drv) (Ioctl (fd' c) VIDIOC_DQBUF) (Select (fd' c) # log) =
              Some (Ok buf0, log')"
    and range: "unat (dq_index buf0) < length (buffers' c)"
    and f: "f = \<lparr>camera_id = camera_id' c,
                 buf_index = sint (dq_index buf0),
                 fd = dma_fd (buffers' c ! unat (dq_index buf0)),
                 data = start (buffers' c ! unat (dq_index buf0)),
                 length_f = length' (buffers' c ! unat (dq_index buf0)),
                 bytes_used = unat (dq_bytesused buf0),
                 width = width' c, height = height' c, stride = stride' c,
                 pixel_format = pixel_format' c,
                 timestamp = dq_timestamp buf0, sequence = dq_sequence buf0,
                 return_buffer = dq_index buf0\<rparr>"
    by (auto simp: get_frame_def Let_def report_error_def
             split: prod.splits if_splits option.splits reply.splits)
  from ioctl_retry_log[OF retry] have "dqbuf drv log' = Ok buf0" by auto
  with range f show
    "unat (return_buffer f) < length (buffers' c) \<and>
      data f = start (buffers' c ! unat (return_buffer f)) \<and>
      length_f f = length' (buffers' c ! unat (return_buffer f)) \<and>
      fd f = dma_fd (buffers' c ! unat (return_buffer f)) \<and>
      buf_index f = sint (return_buffer f) \<and>
      (\<exists>buf. dqbuf drv log' = Ok buf \<and> dq_index buf = return_buffer f)"
    by simp
next
  assume "fst (sys_select drv (Select (fd' c) # log)) \<noteq> - 1 \<and>
      fst (sys_select drv (Select (fd' c) # log)) \<noteq> 0 \<and>
      ioctl_retry (dqbuf drv) (Ioctl (fd' c) VIDIOC_DQBUF) (Select (fd' c) # log) =
        Some (Ok buf, log2) \<and>
      length (buffers' c) \<le> unat (dq_index buf)"
  then show "get_frame drv c log =
        Some (Inl InvalidBufferIndex, c, Report ''Invalid buffer index'' # log2)"
    by (auto simp: get_frame_def Let_def report_error_def split: prod.splits)
qed

text \<open>
  A device that hands back index 7 to a pool of four, and the regular device handing
  back index 0.
\<close>

theorem get_frame_revalidates_index_witness:
  "get_frame stray_index_cam video0_ready video0_init_log =
     Some (Inl InvalidBufferIndex, video0_ready,
           Report ''Invalid buffer index'' # Ioctl 3 VIDIOC_DQBUF # Select 3 # video0_init_log)
   \<and> get_frame webcam video0_ready video0_init_log =
     Some (Inr first_frame, video0_ready, Ioctl 3 VIDIOC_DQBUF # Select 3 # video0_init_log)
   \<and> unat (return_buffer first_frame) < length (buffers' video0_ready)"
  using get_frame_revalidates_index
          [of stray_index_cam video0_ready video0_init_log first_frame video0_ready "[]"
              "\<lparr>dq_index = 7, dq_bytesused = 614400, dq_timestamp = (0, 0), dq_sequence = 0\<rparr>"
              "Ioctl 3 VIDIOC_DQBUF # Select 3 # video0_init_log"]
        get_frame_revalidates_index
          [of webcam video0_ready video0_init_log first_frame video0_ready
              "Ioctl 3 VIDIOC_DQBUF # Select 3 # video0_init_log"
              "\<lparr>dq_index = 0, dq_bytesused = 614400, dq_timestamp = (0, 0), dq_sequence = 0\<rparr>"
              "[]"]
  by (simp add: run_defs)

lemma get_frame_no_qbuf:
  "get_frame drv c log = Some (r, c', log') \<Longrightarrow>
   filter is_qbuf log' = filter is_qbuf log \<and> c' = c"
  by (auto simp: get_frame_def Let_def report_error_def
           split: prod.splits if_splits option.splits reply.splits
           dest!: ioctl_retry_filter[where P = is_qbuf])

text \<open>
  C3: the capture loop issues no enqueue request of its own. Whatever the driver does
  and however long the loop runs, if the sink (when there is one) enqueues nothing, then
  the enqueue requests among the events after the loop are those from before it: every
  delivered buffer is still dequeued, and releasing it is left to the consumer.
\<close>

theorem capture_thread_never_releases:
  assumes "\<And>sink f l l'. frame_callback = Some sink \<Longrightarrow> sink f l = Some l' \<Longrightarrow>
             filter is_qbuf l' = filter is_qbuf l"
      and "capture_thread drv frame_callback c n log = Some log'"
  shows "filter is_qbuf log' = filter is_qbuf log"
  using assms(2)
proof (induction n arbitrary: log)
  case 0
  then show ?case by simp
next
  case (Suc n)
  from Suc.prems obtain r c1 log1 where
    g: "get_frame drv c log = Some (r, c1, log1)"
    by (cases "get_frame drv c log") auto
  from get_frame_no_qbuf[OF g] have q1: "filter is_qbuf log1 = filter is_qbuf log" by simp
  show ?case
  proof (cases r)
    case (Inl e)
    with Suc.prems g have "capture_thread drv frame_callback c n (Sleep_ms 5 # log1) = Some log'"
      by simp
    from Suc.IH[OF this] q1 show ?thesis by simp
  next
    case (Inr f)
    show ?thesis
    proof (cases frame_callback)
      case None
      with Suc.prems g Inr have "capture_thread drv frame_callback c n log1 = Some log'"
        by simp
      from Suc.IH[OF this] q1 show ?thesis by simp
    next
      case (Some sink)
      with Suc.prems g Inr obtain log2 where
        s: "sink f log1 = Some log2" and
        rest: "capture_thread drv frame_callback c n log2 = Some log'"
        by (cases "sink f log1") auto
      from assms(1)[OF Some s] Suc.IH[OF rest] q1 show ?thesis by simp
    qed
  qed
qed

text \<open>Two rounds of the loop with a sink that keeps the frames.\<close>

lemma two_iterations:
  "capture_thread webcam (Some keep_frame) video0_ready (Suc (Suc 0)) video0_init_log =
     Some (Ioctl 3 VIDIOC_DQBUF # Select 3 # Ioctl 3 VIDIOC_DQBUF # Select 3 # video0_init_log)"
  by (simp add: run_defs)

theorem capture_thread_never_releases_witness:
  "capture_thread webcam (Some keep_frame) video0_ready (Suc (Suc 0)) video0_init_log =
     Some (Ioctl 3 VIDIOC_DQBUF # Select 3 # Ioctl 3 VIDIOC_DQBUF # Select 3 # video0_init_log)
   \<and> filter is_qbuf
       (Ioctl 3 VIDIOC_DQBUF # Select 3 # Ioctl 3 VIDIOC_DQBUF # Select 3 # video0_init_log) =
     filter is_qbuf video0_init_log"
proof -
  have sink: "filter is_qbuf l' = filter is_qbuf l"
    if "Some keep_frame = Some sink" and "sink f l = Some l'" for sink f l l'
    using that by (auto simp: keep_frame_def)
  from capture_thread_never_releases[of "Some keep_frame" webcam video0_ready "Suc (Suc 0)"
         video0_init_log, OF sink two_iterations] two_iterations
  show ?thesis by simp
qed

section \<open>Properties of buffer release\<close>

text \<open>
  C1, as the code has it: \<open>return_buffer_to_queue\<close> checks the range of the index and
  nothing else; the pool keeps no free or in-flight state. With a negative index or one
  at or beyond the pool size it returns \<open>false\<close>, issues no request and leaves the
  object as it was. With an index in range it always sends \<open>VIDIOC_QBUF\<close> for that
  index to the device: whenever the retried request comes back, the call returns
  \<open>true\<close> if the driver accepted it and reports and returns \<open>false\<close> if the driver
  refused it, with the object unchanged; it comes back whenever the driver gives some
  attempt a final answer; and the call returns in no other way.
\<close>

theorem return_buffer_to_queue_checks_range_only:
  "(index < 0 \<or> length (buffers' c) \<le> nat index \<longrightarrow>
      return_buffer_to_queue drv c index log = Some (Inl InvalidBufferIndex, c, log))
   \<and> (0 \<le> index \<and> nat index < length (buffers' c) \<and>
      ioctl_retry (qbuf drv) (Ioctl (fd' c) (VIDIOC_QBUF (word_of_int index))) log =
        Some (rep, sent) \<longrightarrow>
      return_buffer_to_queue drv c index log =
        Some (case rep of
                Ok u \<Rightarrow> (Inr (), c, sent)
              | Fail errno \<Rightarrow> (Inl QbufFailed, c, Report ''VIDIOC_QBUF failed'' # sent))
      \<and> (\<exists>k. sent = replicate (Suc k) (Ioctl (fd' c) (VIDIOC_QBUF (word_of_int index))) @ log
             \<and> rep = qbuf drv sent))
   \<and> (0 \<le> index \<and> nat index < length (buffers' c) \<and>
      \<not> retryable
          (qbuf drv (replicate (Suc n) (Ioctl (fd' c) (VIDIOC_QBUF (word_of_int index))) @ log))
      \<longrightarrow>
      (\<exists>k\<le>n. return_buffer_to_queue drv c index log =
         Some (case qbuf drv
                      (replicate (Suc k) (Ioctl (fd' c) (VIDIOC_QBUF (word_of_int index))) @ log) of
                 Ok u \<Rightarrow>
                   (Inr (), c,
                    replicate (Suc k) (Ioctl (fd' c) (VIDIOC_QBUF (word_of_int index))) @ log)
               | Fail errno \<Rightarrow>
                   (Inl QbufFailed, c,
                    Report ''VIDIOC_QBUF failed'' #
                    replicate (Suc k) (Ioctl (fd' c) (VIDIOC_QBUF (word_of_int index))) @ log))))
   \<and> (0 \<le> index \<and> nat index < length (buffers' c) \<and>
      return_buffer_to_queue drv c index log = Some (r, c', log') \<longrightarrow>
      c' = c \<and>
      (\<exists>k. let log1 = replicate (Suc k) (Ioctl (fd' c) (VIDIOC_QBUF (word_of_int index))) @ log
           in (case qbuf drv log1 of
                 Ok u \<Rightarrow> r = Inr () \<and> log' = log1
               | Fail errno \<Rightarrow>
                   r = Inl QbufFailed \<and> log' = Report ''VIDIOC_QBUF failed'' # log1)))"
proof -
  let ?call = "Ioctl (fd' c) (VIDIOC_QBUF (word_of_int index))"
  have total: "return_buffer_to_queue drv c index log =
        Some (case rep of
                Ok u \<Rightarrow> (Inr (), c, sent)
              | Fail errno \<Rightarrow> (Inl QbufFailed, c, Report ''VIDIOC_QBUF failed'' # sent))"
    if "0 \<le> index" "nat index < length (buffers' c)"
       "ioctl_retry (qbuf drv) ?call log = Some (rep, sent)" for rep sent
    using that
    by (cases rep) (auto simp: return_buffer_to_queue_def report_error_def)
  have a: "index < 0 \<or> length (buffers' c) \<le> nat index \<longrightarrow>
      return_buffer_to_queue drv c index log = Some (Inl InvalidBufferIndex, c, log)"
    by (auto simp: return_buffer_to_queue_def)
  have b: "0 \<le> index \<and> nat index < length (buffers' c) \<and>
      ioctl_retry (qbuf drv) ?call log = Some (rep, sent) \<longrightarrow>
      return_buffer_to_queue drv c index log =
        Some (case rep of
                Ok u \<Rightarrow> (Inr (), c, sent)
              | Fail errno \<Rightarrow> (Inl QbufFailed, c, Report ''VIDIOC_QBUF failed'' # sent))
      \<and> (\<exists>k. sent = replicate (Suc k) ?call @ log \<and> rep = qbuf drv sent)"
    using total[of rep sent] ioctl_retry_log[of "qbuf drv" ?call log rep sent] by blast
  have c: "0 \<le> index \<and> nat index < length (buffers' c) \<and>
      \<not> retryable (qbuf drv (replicate (Suc n) ?call @ log)) \<longrightarrow>
      (\<exists>k\<le>n. return_buffer_to_queue drv c index log =
         Some (case qbuf drv (replicate (Suc k) ?call @ log) of
                 Ok u \<Rightarrow> (Inr (), c, replicate (Suc k) ?call @ log)
               | Fail errno \<Rightarrow>
                   (Inl QbufFailed, c,
                    Report ''VIDIOC_QBUF failed'' # replicate (Suc k) ?call @ log)))"
  proof
    assume h: "0 \<le> index \<and> nat index < length (buffers' c) \<and>
      \<not> retryable (qbuf drv (replicate (Suc n) ?call @ log))"
    then obtain k where k: "k \<le> n"
      "ioctl_retry (qbuf drv) ?call log =
         Some (qbuf drv (replicate (Suc k) ?call @ log), replicate (Suc k) ?call @ log)"
      using ioctl_retry_returns_at[of "qbuf drv" n ?call log] by blast
    from h total[OF _ _ k(2)] k(1) show
      "\<exists>k\<le>n. return_buffer_to_queue drv c index log =
         Some (case qbuf drv (replicate (Suc k) ?call @ log) of
                 Ok u \<Rightarrow> (Inr (), c, replicate (Suc k) ?call @ log)
               | Fail errno \<Rightarrow>
                   (Inl QbufFailed, c,
                    Report ''VIDIOC_QBUF failed'' # replicate (Suc k) ?call @ log))"
      by blast
  qed
  have d: "0 \<le> index \<and> nat index < length (buffers' c) \<and>
      return_buffer_to_queue drv c index log = Some (r, c', log') \<longrightarrow>
      c' = c \<and>
      (\<exists>k. let log1 = replicate (Suc k) ?call @ log
           in (case qbuf drv log1 of
                 Ok u \<Rightarrow> r = Inr () \<and> log' = log1
               | Fail errno \<Rightarrow>
                   r = Inl QbufFailed \<and> log' = Report ''VIDIOC_QBUF failed'' # log1))"
  proof
    assume h: "0 \<le> index \<and> nat index < length (buffers' c) \<and>
      return_buffer_to_queue drv c index log = Some (r, c', log')"
    then obtain rep sent where
      retry: "ioctl_retry (qbuf drv) ?call log = Some (rep, sent)"
      by (auto simp: return_buffer_to_queue_def split: option.splits)
    from ioctl_retry_log[OF retry] obtain k where
      k: "sent = replicate (Suc k) ?call @ log" "rep = qbuf drv sent"
      by blast
    from h total[OF _ _ retry] have
      "c' = c \<and> (case rep of
                 Ok u \<Rightarrow> r = Inr () \<and> log' = sent
               | Fail errno \<Rightarrow> r = Inl QbufFailed \<and> log' = Report ''VIDIOC_QBUF failed'' # sent)"
      by (cases rep) auto
    with k show "c' = c \<and>
      (\<exists>k. let log1 = replicate (Suc k) ?call @ log
           in (case qbuf drv log1 of
                 Ok u \<Rightarrow> r = Inr () \<and> log' = log1
               | Fail errno \<Rightarrow>
                   r = Inl QbufFailed \<and> log' = Report ''VIDIOC_QBUF failed'' # log1))"
      by (auto simp: Let_def intro!: exI[of _ k])
  qed
  from a b c d show ?thesis by blast
qed

text \<open>
  Index 7 and index -1 on a pool of four, and index 2 after a frame has been dequeued.
\<close>

theorem return_buffer_to_queue_checks_range_only_witness:
  "return_buffer_to_queue webcam video0_ready 7 video0_init_log =
     Some (Inl InvalidBufferIndex, video0_ready, video0_init_log)
   \<and> return_buffer_to_queue webcam video0_ready (- 1) video0_init_log =
     Some (Inl InvalidBufferIndex, video0_ready, video0_init_log)
   \<and> return_buffer_to_queue webcam video0_ready 2
       (Ioctl 3 VIDIOC_DQBUF # Select 3 # video0_init_log) =
     Some (Inr (), video0_ready,
           Ioctl 3 (VIDIOC_QBUF 2) # Ioctl 3 VIDIOC_DQBUF # Select 3 # video0_init_log)"
  using return_buffer_to_queue_checks_range_only
          [where index = 7 and c = video0_ready and drv = webcam and log = video0_init_log
             and rep = "Ok ()" and sent = "[]" and n = 0 and r = "Inr ()" and c' = video0_ready
             and log' = "[]"]
        return_buffer_to_queue_checks_range_only
          [where index = "- 1" and c = video0_ready and drv = webcam and log = video0_init_log
             and rep = "Ok ()" and sent = "[]" and n = 0 and r = "Inr ()" and c' = video0_ready
             and log' = "[]"]
        return_buffer_to_queue_checks_range_only
          [where index = 2 and c = video0_ready and drv = webcam
             and log = "Ioctl 3 VIDIOC_DQBUF # Select 3 # video0_init_log"
             and rep = "Ok ()"
             and sent = "Ioctl 3 (VIDIOC_QBUF 2) # Ioctl 3 VIDIOC_DQBUF # Select 3 # video0_init_log"
             and n = 0 and r = "Inr ()" and c' = video0_ready
             and log' = "Ioctl 3 (VIDIOC_QBUF 2) # Ioctl 3 VIDIOC_DQBUF # Select 3 # video0_init_log"]
  by (simp add: run_defs)

text \<open>
  C1 as the specification states it fails for a buffer that is already back with the
  device: after the first frame has been released, a second release of the same frame
  sends \<open>VIDIOC_QBUF 0\<close> again, and returns \<open>true\<close> on a device that accepts it.
  On a device that refuses a buffer queued twice the request is sent all the same, and
  the \<open>false\<close> that comes back is the driver's refusal.
\<close>

theorem second_release_is_sent_to_the_device:
  "get_frame webcam video0_ready video0_init_log =
     Some (Inr first_frame, video0_ready, Ioctl 3 VIDIOC_DQBUF # Select 3 # video0_init_log)
   \<and> invoke_return_buffer webcam video0_ready first_frame
       (Ioctl 3 VIDIOC_DQBUF # Select 3 # video0_init_log) =
     Some (Inr (), video0_ready,
           Ioctl 3 (VIDIOC_QBUF 0) # Ioctl 3 VIDIOC_DQBUF # Select 3 # video0_init_log)
   \<and> invoke_return_buffer webcam video0_ready first_frame
       (Ioctl 3 (VIDIOC_QBUF 0) # Ioctl 3 VIDIOC_DQBUF # Select 3 # video0_init_log) =
     Some (Inr (), video0_ready,
           Ioctl 3 (VIDIOC_QBUF 0) # Ioctl 3 (VIDIOC_QBUF 0) # Ioctl 3 VIDIOC_DQBUF #
           Select 3 # video0_init_log)
   \<and> invoke_return_buffer strict_cam video0_ready first_frame
       (Ioctl 3 (VIDIOC_QBUF 0) # Ioctl 3 VIDIOC_DQBUF # Select 3 # video0_init_log) =
     Some (Inl QbufFailed, video0_ready,
           Report ''VIDIOC_QBUF failed'' #
           Ioctl 3 (VIDIOC_QBUF 0) # Ioctl 3 (VIDIOC_QBUF 0) # Ioctl 3 VIDIOC_DQBUF #
           Select 3 # video0_init_log)"
  by (simp add: run_defs)

text \<open>
  C2 does not hold of the code: when \<open>mmap\<close> fails for the second buffer (here in
  the session as \<open>initialize\<close> has it after the frame rate is set),
  \<open>request_buffers\<close> returns \<open>false\<close> at once. The region of the first buffer
  stays mapped (and its exported descriptor 10 open); no \<open>munmap\<close> has been issued.
  Since \<open>initialized_\<close> is still false the destructor skips \<open>uninit_device\<close> too: it
  closes the device and nothing else.
\<close>

theorem mmap_failure_leaves_buffer_mapped:
  "request_buffers low_memory_cam (video0\<lparr>fd' := 3, stride' := 1280\<rparr>)
     [Ioctl 3 (VIDIOC_S_PARM 1 30), Ioctl 3 (VIDIOC_S_FMT 640 480 V4L2_PIX_FMT_YUYV),
      Ioctl 3 VIDIOC_QUERYCAP, Open ''/dev/video0''] =
     Some (Inl MmapFailed, video0_half_mapped, video0_half_mapped_log)
   \<and> \<not> initialized' video0_half_mapped
   \<and> start (buffers' video0_half_mapped ! 0) = 0x7f0000000000
   \<and> filter is_munmap video0_half_mapped_log = []
   \<and> destroy low_memory_cam video0_half_mapped video0_half_mapped_log =
       Some (video0_half_mapped\<lparr>fd' := - 1\<rparr>, Close 3 # video0_half_mapped_log)
   \<and> filter is_munmap (Close 3 # video0_half_mapped_log) = []"
  by (simp add: run_defs)

end
